theory Spec2Isabelle
  imports Main "HOL-Library.AList"
begin

section \<open>JavaScript values\<close>

text \<open>
  The controller \<^verbatim>\<open>app/controllers/api/v1/users.js\<close> handles loosely typed request
  bodies and documents. A value is one of the JSON shapes plus \<^verbatim>\<open>undefined\<close>. Numbers are
  the integers (the settings of this controller hold no fractions), and an object is the
  list of its properties in insertion order. A property is read with \<open>map_of\<close>, so an
  object is meant to carry each key once.
\<close>

datatype jsval =
    Undefined
  | Null
  | Bool bool
  | Num int
  | Str string
  | Arr "jsval list"
  | Obj "(string \<times> jsval) list"

type_synonym jsobject = "(string \<times> jsval) list"

text \<open>The \<^verbatim>\<open>typeof\<close> operator: \<^verbatim>\<open>null\<close> and arrays are of type \<^verbatim>\<open>object\<close>.\<close>

fun typeof :: "jsval \<Rightarrow> string" where
  "typeof Undefined = ''undefined''"
| "typeof Null = ''object''"
| "typeof (Bool b) = ''boolean''"
| "typeof (Num n) = ''number''"
| "typeof (Str s) = ''string''"
| "typeof (Arr xs) = ''object''"
| "typeof (Obj kvs) = ''object''"

text \<open>
  Truthiness, as \<^verbatim>\<open>if (v)\<close>, \<^verbatim>\<open>!v\<close>, \<^verbatim>\<open>a && b\<close> and \<^verbatim>\<open>a || b\<close> test it: \<^verbatim>\<open>undefined\<close>,
  \<^verbatim>\<open>null\<close>, \<^verbatim>\<open>false\<close>, \<^verbatim>\<open>0\<close> and the empty string are falsy, every array and object is
  truthy.
\<close>

fun truthy :: "jsval \<Rightarrow> bool" where
  "truthy Undefined = False"
| "truthy Null = False"
| "truthy (Bool b) = b"
| "truthy (Num n) = (n \<noteq> 0)"
| "truthy (Str s) = (s \<noteq> [])"
| "truthy (Arr xs) = True"
| "truthy (Obj kvs) = True"

text \<open>Reading a property of an object: a missing property reads as \<^verbatim>\<open>undefined\<close>.\<close>

definition getProp :: "jsobject \<Rightarrow> string \<Rightarrow> jsval" where
  "getProp kvs k = (case map_of kvs k of None \<Rightarrow> Undefined | Some v \<Rightarrow> v)"

definition hasOwnProperty :: "jsobject \<Rightarrow> string \<Rightarrow> bool" where
  "hasOwnProperty kvs k = (map_of kvs k \<noteq> None)"

text \<open>\<^verbatim>\<open>_.isString\<close>.\<close>

fun isString :: "jsval \<Rightarrow> bool" where
  "isString (Str s) = True"
| "isString v = False"

text \<open>
  Modelled from the spec: the helper \<^verbatim>\<open>#helpers/lodash\<close> that provides \<^verbatim>\<open>_.pick\<close> is not
  among the sources. The spec has it filter the payload "to only the Registry's known field
  names": the result holds, in the order of the requested names, every requested name that
  is a property of the object, with its value (a property whose value is \<^verbatim>\<open>undefined\<close> is
  kept). Anything that is not an object with named properties (\<^verbatim>\<open>undefined\<close>, \<^verbatim>\<open>null\<close>, a
  scalar, an array of values) has none of the names and gives the empty object.
\<close>

fun pick :: "jsval \<Rightarrow> string list \<Rightarrow> jsobject" where
  "pick (Obj kvs) paths =
     concat (map (\<lambda>k. case map_of kvs k of None \<Rightarrow> [] | Some v \<Rightarrow> [(k, v)]) paths)"
| "pick v paths = []"

text \<open>
  An object literal with a spread, \<^verbatim>\<open>{ ...base, ...extra }\<close>: each property of \<open>extra\<close>
  is assigned in turn, replacing a property of the same name and keeping its position.
\<close>

definition spread :: "jsobject \<Rightarrow> jsobject \<Rightarrow> jsobject" where
  "spread base extra = fold (\<lambda>(k, v) acc. AList.update k v acc) extra base"

section \<open>Data model\<close>

text \<open>
  A domain and an alias as the controller reads them. The settings fields, which the
  controller reads and writes by name, are the properties \<open>a_props\<close>; the attributes it
  reads through fixed names are fields of the record.
\<close>

record domain =
  d_id :: string
  d_name :: string
  d_max_quota_per_alias :: "int option"

record alias_rec =
  a_name :: string
  a_domain :: string
  a_storage_used :: "int option"
  a_has_imap :: jsval
  a_has_pgp :: jsval
  a_public_key :: jsval
  a_locale :: "string option"
  a_created_at :: jsval
  a_updated_at :: jsval
  a_props :: jsobject

text \<open>
  The persistence layer: the collections of aliases and of domains by identifier, and the
  number of \<^verbatim>\<open>save()\<close> calls on an alias that went through.
\<close>

record db =
  aliases :: "string \<rightharpoonup> alias_rec"
  domains :: "string \<rightharpoonup> domain"
  saves :: nat

text \<open>The authenticated user of a request (\<^verbatim>\<open>ctx.state.user\<close>) and the request context.\<close>

record user =
  alias_id :: "string option"
  domain_name :: string
  username :: string
  u_props :: jsobject

record ctx =
  state_user :: "user option"
  session_db :: bool
  ctx_locale :: string
  request_body :: jsval

text \<open>
  What the controller takes from outside this file: the constants of \<^verbatim>\<open>#config\<close> (the
  default quota and the names of the two name fields of a user),
  \<^verbatim>\<open>mongoose.isValidObjectId\<close>, the validation that the schema of the \<^verbatim>\<open>Aliases\<close> model
  (not among the sources) runs on a modified field when a document is saved, and the
  \<^verbatim>\<open>save()\<close> of the \<^verbatim>\<open>Users\<close> model. They are parameters: every theorem below holds for
  each choice of them, unless it says which rule it takes.
\<close>

record env =
  maxQuotaPerAlias :: int
  givenName :: string
  familyName :: string
  isValidObjectId :: "string \<Rightarrow> bool"
  schemaRule :: "string \<Rightarrow> jsval \<Rightarrow> bool"
  userSave :: "user \<Rightarrow> string + user"

text \<open>
  Errors are values. \<open>Unauthorized\<close>, \<open>BadRequest\<close> and \<open>NotFound\<close> are the Boom errors
  (status 401, 400 and 404) with the key of their message; \<open>ValidationError\<close> is the
  failure of \<^verbatim>\<open>save()\<close> on a field; \<open>TypeError\<close> is a property read on \<^verbatim>\<open>undefined\<close> or
  \<^verbatim>\<open>null\<close>; \<open>SaveError\<close> is a failure of the \<^verbatim>\<open>Users\<close> model.
\<close>

datatype error =
    Unauthorized string
  | BadRequest string
  | NotFound string
  | ValidationError string
  | TypeError
  | SaveError string

text \<open>
  Modelled from the spec: the layer that turns a thrown error into a response is not among
  the sources. The spec has validation and authorization errors map to 4xx responses, and
  the tests of the repository expect status 400 of a value the schema refuses.
\<close>

fun clientError :: "error \<Rightarrow> bool" where
  "clientError (Unauthorized m) = True"
| "clientError (BadRequest m) = True"
| "clientError (NotFound m) = True"
| "clientError (ValidationError f) = True"
| "clientError TypeError = False"
| "clientError (SaveError m) = False"

section \<open>The controller\<close>

definition ALIAS_SETTINGS_FIELDS :: "string list" where
  "ALIAS_SETTINGS_FIELDS =
    [''appearance_theme'',
     ''appearance_layout_mode'',
     ''compose_plain_default'',
     ''mail_messages_per_page'',
     ''mail_archive_folder'',
     ''search_body_indexing'',
     ''search_saved_searches'',
     ''prefetch_enabled'',
     ''prefetch_folders'',
     ''prefetch_mode'',
     ''shortcuts'',
     ''label_settings'',
     ''security_remember_passphrase'',
     ''aliases_defaults'']"

definition serializeAliasSettings :: "alias_rec \<Rightarrow> jsobject" where
  "serializeAliasSettings a =
    (let settings = pick (Obj (a_props a)) ALIAS_SETTINGS_FIELDS;
         settings = (if \<not> truthy (getProp settings ''shortcuts'')
                     then AList.update ''shortcuts'' (Obj []) settings else settings);
         settings = (if \<not> truthy (getProp settings ''label_settings'')
                     then AList.update ''label_settings'' (Obj []) settings else settings);
         settings = (if \<not> truthy (getProp settings ''aliases_defaults'')
                     then AList.update ''aliases_defaults'' (Obj []) settings else settings)
     in settings)"

record aliasContext =
  aliasId :: string
  domainName :: string
  aliasEmail :: string

definition getAliasContext :: "env \<Rightarrow> ctx \<Rightarrow> error + aliasContext" where
  "getAliasContext env c =
    (case state_user c of
       None \<Rightarrow> Inl (Unauthorized ''SETTINGS_ALIAS_AUTH_REQUIRED'')
     | Some u \<Rightarrow>
        (case alias_id u of
           None \<Rightarrow> Inl (Unauthorized ''SETTINGS_ALIAS_AUTH_REQUIRED'')
         | Some i \<Rightarrow>
            if i = [] then Inl (Unauthorized ''SETTINGS_ALIAS_AUTH_REQUIRED'')
            else if \<not> isValidObjectId env i then Inl (Unauthorized ''SETTINGS_INVALID_ALIAS_ID'')
            else Inr \<lparr>aliasId = i, domainName = domain_name u, aliasEmail = username u\<rparr>))"

subsection \<open>Documents of the Aliases model\<close>

text \<open>
  Modelled from the spec: the \<^verbatim>\<open>Aliases\<close> model is not among the sources. The spec gives its
  contract: \<^verbatim>\<open>findById(id)\<close> returns the alias or nothing; \<^verbatim>\<open>.set(fieldName, value)\<close> sets
  that field on the record in memory, overwriting any previous value; \<^verbatim>\<open>.save()\<close> may fail,
  and a save that follows sets on the same record reflects all of them. A document is the
  alias read from the collection, with its identifier and the names of the fields set since. Saving runs the
  schema's rule of each field that was set, in the order of the sets; the first field
  whose value the rule refuses fails the save, and nothing is written.
\<close>

record document =
  doc_id :: string
  doc :: alias_rec
  modifiedPaths :: "string list"

definition findById :: "db \<Rightarrow> string \<Rightarrow> document option" where
  "findById d i = map_option (\<lambda>a. \<lparr>doc_id = i, doc = a, modifiedPaths = []\<rparr>) (aliases d i)"

definition set_field :: "document \<Rightarrow> string \<Rightarrow> jsval \<Rightarrow> document" where
  "set_field m key val =
     \<lparr>doc_id = doc_id m,
      doc = (doc m)\<lparr>a_props := AList.update key val (a_props (doc m))\<rparr>,
      modifiedPaths = modifiedPaths m @ [key]\<rparr>"

definition save :: "env \<Rightarrow> document \<Rightarrow> db \<Rightarrow> (error + unit) \<times> db" where
  "save env m d =
    (case find (\<lambda>k. \<not> schemaRule env k (getProp (a_props (doc m)) k)) (modifiedPaths m) of
       Some k \<Rightarrow> (Inl (ValidationError k), d)
     | None \<Rightarrow>
        (Inr (), d\<lparr>aliases := (aliases d)(doc_id m \<mapsto> doc m), saves := Suc (saves d)\<rparr>))"

text \<open>
  The loop \<^verbatim>\<open>for (const [key, value] of Object.entries(updates))\<close> of
  \<^verbatim>\<open>updateAliasSettingsForContext\<close>, which skips a value that is \<^verbatim>\<open>undefined\<close>.
\<close>

fun applyUpdates :: "jsobject \<Rightarrow> document \<Rightarrow> document" where
  "applyUpdates [] m = m"
| "applyUpdates ((key, val) # rest) m =
     (if val = Undefined then applyUpdates rest m
      else applyUpdates rest (set_field m key val))"

definition updateAliasSettingsForContext ::
  "env \<Rightarrow> ctx \<Rightarrow> jsval \<Rightarrow> db \<Rightarrow> (error + unit) \<times> db" where
  "updateAliasSettingsForContext env c body d =
    (case getAliasContext env c of
       Inl e \<Rightarrow> (Inl e, d)
     | Inr aliasContext \<Rightarrow>
        if truthy body \<and> typeof body \<noteq> ''object''
        then (Inl (BadRequest ''INVALID_REQUEST_BODY''), d)
        else
          (case findById d (aliasId aliasContext) of
             None \<Rightarrow> (Inl (Unauthorized ''SETTINGS_INVALID_ALIAS_ID''), d)
           | Some m \<Rightarrow>
              let updates = pick body ALIAS_SETTINGS_FIELDS in
              if hasOwnProperty updates ''mail_archive_folder''
                 \<and> getProp updates ''mail_archive_folder'' \<noteq> Null
                 \<and> getProp updates ''mail_archive_folder'' \<noteq> Undefined
                 \<and> typeof (getProp updates ''mail_archive_folder'') \<noteq> ''string''
              then (Inl (BadRequest ''SETTINGS_ARCHIVE_FOLDER_INVALID''), d)
              else save env (applyUpdates updates m) d))"

subsection \<open>The account payload\<close>

text \<open>
  \<^verbatim>\<open>retrieve\<close> and \<^verbatim>\<open>update\<close> build the response for an alias with the same statements
  (lines 124 to 145 and 166 to 187), modelled once. The alias is the lean document with
  its domain populated: \<open>i\<close> is its identifier and \<open>pdom\<close> the domain its reference
  resolves to, if any. Reading
  \<^verbatim>\<open>alias.domain.name\<close> of a missing domain throws.
\<close>

definition aliasBody :: "env \<Rightarrow> ctx \<Rightarrow> string \<Rightarrow> alias_rec \<Rightarrow> domain option \<Rightarrow> error + jsobject" where
  "aliasBody env c i a pdom =
    (let storageUsed =
           (case a_storage_used a of None \<Rightarrow> 0 | Some n \<Rightarrow> if n \<noteq> 0 then n else 0);
         maxQuotaPerAlias =
           (case pdom of
              None \<Rightarrow> maxQuotaPerAlias env
            | Some dm \<Rightarrow>
               (case d_max_quota_per_alias dm of
                  None \<Rightarrow> maxQuotaPerAlias env
                | Some q \<Rightarrow> if q \<noteq> 0 then q else maxQuotaPerAlias env))
     in case pdom of
          None \<Rightarrow> Inl TypeError
        | Some dm \<Rightarrow>
           Inr (spread
             [(''id'', Str i),
              (''object'', Str ''alias''),
              (''name'', Str (a_name a)),
              (''email'', Str (a_name a @ ''@'' @ d_name dm)),
              (''domain_id'', Str (d_id dm)),
              (''domain_name'', Str (d_name dm)),
              (''storage_used'', Num storageUsed),
              (''storage_quota'', Num maxQuotaPerAlias),
              (''has_imap'', a_has_imap a),
              (''has_pgp'', a_has_pgp a),
              (''public_key'', a_public_key a),
              (''locale'', Str (case a_locale a of
                                  None \<Rightarrow> ctx_locale c
                                | Some l \<Rightarrow> if l \<noteq> [] then l else ctx_locale c)),
              (''created_at'', a_created_at a),
              (''updated_at'', a_updated_at a)]
             (serializeAliasSettings a)))"

text \<open>
  The query \<^verbatim>\<open>Aliases.findById(ctx.state.user.alias_id).populate(...).lean().exec()\<close>:
  the identifier, the stored alias and the domain its reference resolves to. Reading \<^verbatim>\<open>alias_id\<close> of a
  missing user throws; a missing \<^verbatim>\<open>alias_id\<close> finds nothing.
\<close>

definition findLean :: "ctx \<Rightarrow> db \<Rightarrow> error + (string \<times> alias_rec \<times> domain option) option" where
  "findLean c d =
    (case state_user c of
       None \<Rightarrow> Inl TypeError
     | Some u \<Rightarrow>
        (case alias_id u of
           None \<Rightarrow> Inr None
         | Some i \<Rightarrow> Inr (map_option (\<lambda>a. (i, a, domains d (a_domain a))) (aliases d i))))"

datatype response = AliasBody jsobject | UserObject user

definition retrieve :: "env \<Rightarrow> ctx \<Rightarrow> db \<Rightarrow> error + response" where
  "retrieve env c d =
    (if session_db c then
       (case findLean c d of
          Inl e \<Rightarrow> Inl e
        | Inr None \<Rightarrow> Inl (NotFound ''ALIAS_DOES_NOT_EXIST'')
        | Inr (Some (i, a, pdom)) \<Rightarrow> map_sum id AliasBody (aliasBody env c i a pdom))
     else
       (case state_user c of None \<Rightarrow> Inl TypeError | Some u \<Rightarrow> Inr (UserObject u)))"

text \<open>
  Reading a property of the request body (\<^verbatim>\<open>body.email\<close>): it throws on \<^verbatim>\<open>undefined\<close> and
  \<^verbatim>\<open>null\<close>; a scalar or an array has none of the names read here.
\<close>

fun member :: "jsval \<Rightarrow> string \<Rightarrow> error + jsval" where
  "member Undefined k = Inl TypeError"
| "member Null k = Inl TypeError"
| "member (Obj kvs) k = Inr (getProp kvs k)"
| "member v k = Inr Undefined"

text \<open>
  One statement \<^verbatim>\<open>if (_.isString(body[f])) ctx.state.user[f] = body[f]\<close> of the branch of
  \<^verbatim>\<open>update\<close> for a primary user.
\<close>

definition copyString :: "jsval \<Rightarrow> string \<Rightarrow> user option \<Rightarrow> error + user option" where
  "copyString body f u =
    (case member body f of
       Inl e \<Rightarrow> Inl e
     | Inr v \<Rightarrow>
        if isString v then
          (case u of
             None \<Rightarrow> Inl TypeError
           | Some w \<Rightarrow> Inr (Some (w\<lparr>u_props := AList.update f v (u_props w)\<rparr>)))
        else Inr u)"

definition update :: "env \<Rightarrow> ctx \<Rightarrow> db \<Rightarrow> (error + response) \<times> db" where
  "update env c d =
    (let body = request_body c in
     if session_db c then
       (case updateAliasSettingsForContext env c body d of
          (Inl e, d') \<Rightarrow> (Inl e, d')
        | (Inr u, d') \<Rightarrow>
           (case findLean c d' of
              Inl e \<Rightarrow> (Inl e, d')
            | Inr None \<Rightarrow> (Inl (NotFound ''ALIAS_DOES_NOT_EXIST''), d')
            | Inr (Some (i, a, pdom)) \<Rightarrow> (map_sum id AliasBody (aliasBody env c i a pdom), d')))
     else
       (case copyString body ''email'' (state_user c) of
          Inl e \<Rightarrow> (Inl e, d)
        | Inr u1 \<Rightarrow>
       (case copyString body (givenName env) u1 of
          Inl e \<Rightarrow> (Inl e, d)
        | Inr u2 \<Rightarrow>
       (case copyString body (familyName env) u2 of
          Inl e \<Rightarrow> (Inl e, d)
        | Inr u3 \<Rightarrow>
       (case copyString body ''avatar_url'' u3 of
          Inl e \<Rightarrow> (Inl e, d)
        | Inr None \<Rightarrow> (Inl TypeError, d)
        | Inr (Some u4) \<Rightarrow>
           (case userSave env u4 of
              Inl m \<Rightarrow> (Inl (SaveError m), d)
            | Inr u5 \<Rightarrow> (Inr (UserObject u5), d)))))))"

section \<open>What the schema of the Aliases model contributes\<close>

text \<open>
  Modelled from the spec: the schema of the \<^verbatim>\<open>Aliases\<close> model is not among the sources.
  The spec has \<^verbatim>\<open>mail_messages_per_page\<close> be "one of a fixed discrete set of accepted page
  sizes (e.g. {25,50,100,...})", a closed set and not a range, in which 30 is not. The set
  is the one the spec writes out; a value that is not a number is refused.
\<close>

definition accepted_page_sizes :: "int list" where
  "accepted_page_sizes = [25, 50, 100]"

fun mail_messages_per_page_rule :: "jsval \<Rightarrow> bool" where
  "mail_messages_per_page_rule (Num n) = (n \<in> set accepted_page_sizes)"
| "mail_messages_per_page_rule v = False"

text \<open>
  Modelled from the spec: the values that the spec and the repository's test of a newly
  created alias name as the defaults of five scalar settings fields. The controller does
  not hold them; they are used below as the stored settings of the example alias.
\<close>

definition registeredDefaults :: jsobject where
  "registeredDefaults =
    [(''appearance_theme'', Str ''system''),
     (''appearance_layout_mode'', Str ''personal''),
     (''mail_messages_per_page'', Num 50),
     (''mail_archive_folder'', Null),
     (''search_body_indexing'', Bool False)]"

section \<open>A concrete deployment\<close>

text \<open>
  A configuration, a request context and a database with one alias of one domain, on which
  the theorems below are exercised. The schema rule of the configuration is the page-size
  rule above and accepts every value of every other field.
\<close>

definition exampleEnv :: env where
  "exampleEnv =
    \<lparr>maxQuotaPerAlias = 10737418240,
     givenName = ''given_name'',
     familyName = ''family_name'',
     isValidObjectId = (\<lambda>s. length s = 24),
     schemaRule = (\<lambda>k v. if k = ''mail_messages_per_page''
                          then mail_messages_per_page_rule v else True),
     userSave = Inr\<rparr>"

definition exampleCtx :: "jsval \<Rightarrow> ctx" where
  "exampleCtx body =
    \<lparr>state_user = Some \<lparr>alias_id = Some ''65f0c0ffee0123456789abcd'',
                        domain_name = ''example.com'',
                        username = ''hello@example.com'',
                        u_props = []\<rparr>,
     session_db = True,
     ctx_locale = ''en'',
     request_body = body\<rparr>"

definition exampleDomain :: "int option \<Rightarrow> domain" where
  "exampleDomain q = \<lparr>d_id = ''dom1'', d_name = ''example.com'', d_max_quota_per_alias = q\<rparr>"

definition exampleAlias :: "jsobject \<Rightarrow> alias_rec" where
  "exampleAlias ps =
    \<lparr>a_name = ''hello'',
     a_domain = ''dom1'',
     a_storage_used = None,
     a_has_imap = Bool True,
     a_has_pgp = Bool False,
     a_public_key = Undefined,
     a_locale = None,
     a_created_at = Num 1700000000,
     a_updated_at = Num 1700000000,
     a_props = ps\<rparr>"

definition exampleDb :: "jsobject \<Rightarrow> int option \<Rightarrow> db" where
  "exampleDb ps q =
    \<lparr>aliases = [''65f0c0ffee0123456789abcd'' \<mapsto> exampleAlias ps],
     domains = [''dom1'' \<mapsto> exampleDomain q],
     saves = 0\<rparr>"

definition emptyDb :: db where
  "emptyDb = \<lparr>aliases = Map.empty, domains = Map.empty, saves = 0\<rparr>"

section \<open>Properties of the helpers\<close>

lemma distinct_fields: "distinct ALIAS_SETTINGS_FIELDS"
  by (simp add: ALIAS_SETTINGS_FIELDS_def)

lemma map_of_pick:
  "map_of (pick (Obj kvs) ps) k = (if k \<in> set ps then map_of kvs k else None)"
  by (induction ps) (auto split: option.splits)

lemma keys_pick: "fst ` set (pick b ps) \<subseteq> set ps"
  by (cases b) (auto split: option.splits)

lemma distinct_pick: "distinct ps \<Longrightarrow> distinct (map fst (pick b ps))"
proof (cases b)
  case (Obj kvs)
  assume "distinct ps"
  then have "distinct (map fst (pick (Obj kvs) ps))"
  proof (induction ps)
    case Nil
    then show ?case by simp
  next
    case (Cons p ps)
    have "fst ` set (pick (Obj kvs) ps) \<subseteq> set ps" by (rule keys_pick)
    with Cons show ?case by (auto split: option.splits)
  qed
  with Obj show ?thesis by simp
qed simp_all

lemma map_of_filter_key:
  "map_of (filter (\<lambda>(k, v). P k) kvs) k = (if P k then map_of kvs k else None)"
  by (induction kvs) auto

lemma pick_whitelist:
  "pick (Obj (filter (\<lambda>(k, v). k \<in> set ps) kvs)) ps = pick (Obj kvs) ps"
proof -
  have "\<And>k. k \<in> set ps \<Longrightarrow> map_of (filter (\<lambda>(k, v). k \<in> set ps) kvs) k = map_of kvs k"
    by (simp add: map_of_filter_key)
  then show ?thesis by (simp cong: map_cong)
qed

declare pick.simps [simp del]

lemma applyUpdates_id: "doc_id (applyUpdates us m) = doc_id m"
  by (induction us m rule: applyUpdates.induct) (simp_all add: set_field_def)

lemma applyUpdates_doc:
  "doc (applyUpdates us m) = (doc m)\<lparr>a_props := a_props (doc (applyUpdates us m))\<rparr>"
  by (induction us m rule: applyUpdates.induct) (simp_all add: set_field_def)

lemma applyUpdates_modified:
  "modifiedPaths (applyUpdates us m) =
     modifiedPaths m @ map fst (filter (\<lambda>(k, v). v \<noteq> Undefined) us)"
  by (induction us m rule: applyUpdates.induct) (simp_all add: set_field_def)

lemma applyUpdates_props:
  "distinct (map fst us) \<Longrightarrow>
   map_of (a_props (doc (applyUpdates us m))) k =
     (case map_of us k of
        None \<Rightarrow> map_of (a_props (doc m)) k
      | Some v \<Rightarrow> if v = Undefined then map_of (a_props (doc m)) k else Some v)"
proof (induction us m rule: applyUpdates.induct)
  case (1 m)
  then show ?case by simp
next
  case (2 key val rest m)
  then have "map_of rest key = None"
    by (simp add: map_of_eq_None_iff)
  with 2 show ?case
    by (auto simp: set_field_def update_conv' split: option.splits)
qed

lemma save_error: "save env m d = (Inl e, d') \<Longrightarrow> d' = d"
  by (auto simp: save_def split: option.splits)

lemma save_invalid:
  assumes "k \<in> set (modifiedPaths m)"
      and "\<not> schemaRule env k (getProp (a_props (doc m)) k)"
  shows "\<exists>f. save env m d = (Inl (ValidationError f), d)"
proof -
  have "find (\<lambda>k. \<not> schemaRule env k (getProp (a_props (doc m)) k)) (modifiedPaths m) \<noteq> None"
    using assms by (auto simp: find_None_iff)
  then show ?thesis by (auto simp: save_def)
qed

lemma save_valid:
  assumes "\<forall>k\<in>set (modifiedPaths m). schemaRule env k (getProp (a_props (doc m)) k)"
  shows "save env m d =
    (Inr (), d\<lparr>aliases := (aliases d)(doc_id m \<mapsto> doc m), saves := Suc (saves d)\<rparr>)"
proof -
  have "find (\<lambda>k. \<not> schemaRule env k (getProp (a_props (doc m)) k)) (modifiedPaths m) = None"
    using assms by (auto simp: find_None_iff)
  then show ?thesis by (simp add: save_def)
qed

lemma save_success:
  "save env m d = (Inr u, d') \<Longrightarrow>
   d' = d\<lparr>aliases := (aliases d)(doc_id m \<mapsto> doc m), saves := Suc (saves d)\<rparr>"
  by (auto simp: save_def split: option.splits)

lemma update_error_unchanged:
  "updateAliasSettingsForContext env c body d = (Inl e, d') \<Longrightarrow> d' = d"
  unfolding updateAliasSettingsForContext_def Let_def
  by (auto split: sum.splits option.splits if_splits dest: save_error)

lemma update_success:
  assumes "updateAliasSettingsForContext env c body d = (Inr u, d')"
  shows "\<exists>ac a. getAliasContext env c = Inr ac \<and> aliases d (aliasId ac) = Some a \<and>
     d' = d\<lparr>aliases := (aliases d)(aliasId ac \<mapsto>
               doc (applyUpdates (pick body ALIAS_SETTINGS_FIELDS)
                     \<lparr>doc_id = aliasId ac, doc = a, modifiedPaths = []\<rparr>)),
            saves := Suc (saves d)\<rparr>"
  using assms unfolding updateAliasSettingsForContext_def Let_def findById_def
  by (auto split: sum.splits option.splits if_splits dest!: save_success simp: applyUpdates_id)

lemma picked_props:
  assumes "k \<in> set ALIAS_SETTINGS_FIELDS" "map_of kvs k = Some v" "v \<noteq> Undefined"
  shows "map_of (a_props (doc (applyUpdates (pick (Obj kvs) ALIAS_SETTINGS_FIELDS) m))) k = Some v"
  using assms
  by (simp add: applyUpdates_props distinct_pick distinct_fields map_of_pick)

lemma unpicked_props:
  assumes "k \<notin> set ALIAS_SETTINGS_FIELDS \<or> map_of kvs k = None \<or> map_of kvs k = Some Undefined"
  shows "map_of (a_props (doc (applyUpdates (pick (Obj kvs) ALIAS_SETTINGS_FIELDS) m))) k
           = map_of (a_props (doc m)) k"
  using assms
  by (auto simp add: applyUpdates_props distinct_pick distinct_fields map_of_pick)

lemma picked_modified:
  assumes "k \<in> set ALIAS_SETTINGS_FIELDS" "map_of kvs k = Some v" "v \<noteq> Undefined"
  shows "k \<in> set (modifiedPaths (applyUpdates (pick (Obj kvs) ALIAS_SETTINGS_FIELDS) m))"
proof -
  have "map_of (pick (Obj kvs) ALIAS_SETTINGS_FIELDS) k = Some v"
    using assms by (simp add: map_of_pick)
  then have "(k, v) \<in> set (pick (Obj kvs) ALIAS_SETTINGS_FIELDS)"
    by (rule map_of_SomeD)
  with assms(3) show ?thesis
    by (force simp: applyUpdates_modified)
qed

lemma update_invalid_field:
  assumes k: "k \<in> set ALIAS_SETTINGS_FIELDS" "map_of kvs k = Some v" "v \<noteq> Undefined"
      and bad: "\<not> schemaRule env k v \<or>
                (k = ''mail_archive_folder'' \<and> v \<noteq> Null \<and> typeof v \<noteq> ''string'')"
  shows "\<exists>e. updateAliasSettingsForContext env c (Obj kvs) d = (Inl e, d)"
proof (cases "getAliasContext env c")
  case (Inl e)
  then show ?thesis by (simp add: updateAliasSettingsForContext_def)
next
  case (Inr ac)
  show ?thesis
  proof (cases "aliases d (aliasId ac)")
    case None
    with Inr show ?thesis by (simp add: updateAliasSettingsForContext_def findById_def)
  next
    case (Some a)
    let ?us = "pick (Obj kvs) ALIAS_SETTINGS_FIELDS"
    let ?m = "\<lparr>doc_id = aliasId ac, doc = a, modifiedPaths = []\<rparr>"
    let ?guard = "hasOwnProperty ?us ''mail_archive_folder''
                 \<and> getProp ?us ''mail_archive_folder'' \<noteq> Null
                 \<and> getProp ?us ''mail_archive_folder'' \<noteq> Undefined
                 \<and> typeof (getProp ?us ''mail_archive_folder'') \<noteq> ''string''"
    show ?thesis
    proof (cases ?guard)
      case True
      with Inr Some show ?thesis
        by (simp add: updateAliasSettingsForContext_def findById_def Let_def)
    next
      case False
      have pk: "map_of ?us k = Some v" using k by (simp add: map_of_pick)
      have "\<not> schemaRule env k v"
      proof (rule ccontr)
        assume "\<not> \<not> schemaRule env k v"
        with bad have "k = ''mail_archive_folder''" "v \<noteq> Null" "typeof v \<noteq> ''string''"
          by auto
        with pk k(3) have ?guard by (simp add: hasOwnProperty_def getProp_def)
        with False show False by contradiction
      qed
      moreover have "getProp (a_props (doc (applyUpdates ?us ?m))) k = v"
        using picked_props [OF k] by (simp add: getProp_def)
      ultimately have "\<exists>f. save env (applyUpdates ?us ?m) d = (Inl (ValidationError f), d)"
        using picked_modified [OF k] by (intro save_invalid) auto
      with Inr Some False show ?thesis
        by (auto simp add: updateAliasSettingsForContext_def findById_def Let_def)
    qed
  qed
qed

section \<open>Settings updates\<close>

lemma alias_context_example:
  "getAliasContext exampleEnv (exampleCtx b) =
     Inr \<lparr>aliasId = ''65f0c0ffee0123456789abcd'', domainName = ''example.com'',
          aliasEmail = ''hello@example.com''\<rparr>"
  by (simp add: getAliasContext_def exampleEnv_def exampleCtx_def)

lemma example_rule:
  "schemaRule exampleEnv k v =
     (if k = ''mail_messages_per_page'' then mail_messages_per_page_rule v else True)"
  by (simp add: exampleEnv_def)

lemma update_error_client:
  "updateAliasSettingsForContext env c body d = (Inl e, d') \<Longrightarrow> clientError e"
  unfolding updateAliasSettingsForContext_def Let_def getAliasContext_def save_def
  by (auto split: sum.splits option.splits if_splits)

text \<open>
  Claim C1. Whenever a field of the payload fails validation (a whitelisted field that is
  present with a defined value which the schema's rule refuses, or a \<^verbatim>\<open>mail_archive_folder\<close>
  that is neither \<^verbatim>\<open>null\<close> nor a string), the update ends in a client error and returns the
  database it was given: no field has been applied to the stored alias, and no save has
  gone through. The type guard on \<^verbatim>\<open>mail_archive_folder\<close> runs before the first \<^verbatim>\<open>set\<close>; the
  schema's rules run inside \<^verbatim>\<open>save()\<close>, on the document in memory, before anything is written.
\<close>

theorem update_aborts_unapplied:
  assumes "k \<in> set ALIAS_SETTINGS_FIELDS" and "map_of kvs k = Some v" and "v \<noteq> Undefined"
      and "\<not> schemaRule env k v \<or>
           (k = ''mail_archive_folder'' \<and> v \<noteq> Null \<and> typeof v \<noteq> ''string'')"
  shows "\<exists>e. updateAliasSettingsForContext env c (Obj kvs) d = (Inl e, d) \<and> clientError e"
proof -
  obtain e where e: "updateAliasSettingsForContext env c (Obj kvs) d = (Inl e, d)"
    using update_invalid_field [OF assms] by blast
  then have "clientError e" by (rule update_error_client)
  with e show ?thesis by blast
qed

theorem update_aborts_unapplied_witness:
  "\<exists>e. updateAliasSettingsForContext exampleEnv (exampleCtx Undefined)
          (Obj [(''appearance_theme'', Str ''dark''), (''mail_messages_per_page'', Num 30)])
          (exampleDb registeredDefaults None)
        = (Inl e, exampleDb registeredDefaults None) \<and> clientError e"
  using update_aborts_unapplied [of "''mail_messages_per_page''"
      "[(''appearance_theme'', Str ''dark''), (''mail_messages_per_page'', Num 30)]"
      "Num 30" exampleEnv "exampleCtx Undefined" "exampleDb registeredDefaults None"]
  by (simp add: ALIAS_SETTINGS_FIELDS_def exampleEnv_def accepted_page_sizes_def)

text \<open>
  Claim C7. An update gives the same result and the same database with and without the
  top-level keys of the payload that are outside the whitelist, so such a key never makes
  it fail; and whatever the outcome, a property of a stored alias whose name is outside
  the whitelist is what it was before.
\<close>

theorem unknown_keys_ignored:
  "updateAliasSettingsForContext env c (Obj kvs) d
     = updateAliasSettingsForContext env c
         (Obj (filter (\<lambda>(k, v). k \<in> set ALIAS_SETTINGS_FIELDS) kvs)) d
   \<and> (updateAliasSettingsForContext env c (Obj kvs) d = (r, d')
         \<and> aliases d i = Some a \<and> aliases d' i = Some a' \<and> k \<notin> set ALIAS_SETTINGS_FIELDS
         \<longrightarrow> map_of (a_props a') k = map_of (a_props a) k)"
proof (intro conjI impI)
  show "updateAliasSettingsForContext env c (Obj kvs) d
     = updateAliasSettingsForContext env c
         (Obj (filter (\<lambda>(k, v). k \<in> set ALIAS_SETTINGS_FIELDS) kvs)) d"
    unfolding updateAliasSettingsForContext_def pick_whitelist truthy.simps typeof.simps
    by (rule refl)
next
  assume h: "updateAliasSettingsForContext env c (Obj kvs) d = (r, d')
         \<and> aliases d i = Some a \<and> aliases d' i = Some a' \<and> k \<notin> set ALIAS_SETTINGS_FIELDS"
  show "map_of (a_props a') k = map_of (a_props a) k"
  proof (cases r)
    case (Inl e)
    with h have "d' = d" by (auto dest: update_error_unchanged)
    with h have "a' = a" by auto
    then show ?thesis by simp
  next
    case (Inr u)
    with h update_success [of env c "Obj kvs" d u d'] obtain ac :: aliasContext and b where
      b: "aliases d (aliasId ac) = Some b" and
      d': "d' = d\<lparr>aliases := (aliases d)(aliasId ac \<mapsto>
               doc (applyUpdates (pick (Obj kvs) ALIAS_SETTINGS_FIELDS)
                     \<lparr>doc_id = aliasId ac, doc = b, modifiedPaths = []\<rparr>)),
            saves := Suc (saves d)\<rparr>"
      by auto
    show ?thesis
    proof (cases "i = aliasId ac")
      case True
      with h b d' have "a = b" "a' = doc (applyUpdates (pick (Obj kvs) ALIAS_SETTINGS_FIELDS)
                     \<lparr>doc_id = aliasId ac, doc = b, modifiedPaths = []\<rparr>)"
        by auto
      with h show ?thesis by (simp add: unpicked_props)
    next
      case False
      with h d' show ?thesis by auto
    qed
  qed
qed

lemma example_update_unknown_key:
  "updateAliasSettingsForContext exampleEnv (exampleCtx Undefined)
     (Obj [(''is_admin'', Bool True), (''appearance_theme'', Str ''light'')])
     (exampleDb [(''is_admin'', Bool False)] None)
   = (Inr (),
      \<lparr>aliases = [''65f0c0ffee0123456789abcd'' \<mapsto>
          exampleAlias [(''is_admin'', Bool False), (''appearance_theme'', Str ''light'')]],
       domains = [''dom1'' \<mapsto> exampleDomain None],
       saves = 1\<rparr>)"
  by (simp add: updateAliasSettingsForContext_def alias_context_example findById_def
      exampleDb_def exampleAlias_def ALIAS_SETTINGS_FIELDS_def pick.simps hasOwnProperty_def
      getProp_def set_field_def save_def example_rule Let_def)

theorem unknown_keys_ignored_witness:
  "updateAliasSettingsForContext exampleEnv (exampleCtx Undefined)
     (Obj [(''is_admin'', Bool True), (''appearance_theme'', Str ''light'')])
     (exampleDb [(''is_admin'', Bool False)] None)
   = updateAliasSettingsForContext exampleEnv (exampleCtx Undefined)
     (Obj [(''appearance_theme'', Str ''light'')])
     (exampleDb [(''is_admin'', Bool False)] None)
   \<and> map_of (a_props (exampleAlias [(''is_admin'', Bool False),
                                    (''appearance_theme'', Str ''light'')])) ''is_admin''
       = Some (Bool False)"
  using unknown_keys_ignored [of exampleEnv "exampleCtx Undefined"
      "[(''is_admin'', Bool True), (''appearance_theme'', Str ''light'')]"
      "exampleDb [(''is_admin'', Bool False)] None"
      "Inr ()"
      "\<lparr>aliases = [''65f0c0ffee0123456789abcd'' \<mapsto>
          exampleAlias [(''is_admin'', Bool False), (''appearance_theme'', Str ''light'')]],
       domains = [''dom1'' \<mapsto> exampleDomain None],
       saves = 1\<rparr>"
      "''65f0c0ffee0123456789abcd''"
      "exampleAlias [(''is_admin'', Bool False)]"
      "exampleAlias [(''is_admin'', Bool False), (''appearance_theme'', Str ''light'')]"
      "''is_admin''"]
    example_update_unknown_key
  by (simp add: ALIAS_SETTINGS_FIELDS_def exampleDb_def exampleAlias_def)

lemma typeof_string: "(typeof v = ''string'') = isString v"
  by (cases v) simp_all

lemma picked_membership:
  assumes "k \<in> set (modifiedPaths (applyUpdates (pick (Obj kvs) ALIAS_SETTINGS_FIELDS)
                      \<lparr>doc_id = i, doc = a, modifiedPaths = []\<rparr>))"
  shows "\<exists>w. k \<in> set ALIAS_SETTINGS_FIELDS \<and> map_of kvs k = Some w \<and> w \<noteq> Undefined"
proof -
  from assms obtain w where w: "(k, w) \<in> set (pick (Obj kvs) ALIAS_SETTINGS_FIELDS)" "w \<noteq> Undefined"
    by (auto simp: applyUpdates_modified)
  then have "map_of (pick (Obj kvs) ALIAS_SETTINGS_FIELDS) k = Some w"
    by (simp add: distinct_pick distinct_fields)
  then have "k \<in> set ALIAS_SETTINGS_FIELDS \<and> map_of kvs k = Some w"
    by (simp add: map_of_pick split: if_splits)
  with w(2) show ?thesis by blast
qed

lemma update_valid:
  assumes ac: "getAliasContext env c = Inr ac" and a: "aliases d (aliasId ac) = Some a"
      and ok: "\<And>k w. k \<in> set ALIAS_SETTINGS_FIELDS \<Longrightarrow> map_of kvs k = Some w \<Longrightarrow> w \<noteq> Undefined
                 \<Longrightarrow> schemaRule env k w \<and> (k = ''mail_archive_folder'' \<longrightarrow> w = Null \<or> isString w)"
  shows "updateAliasSettingsForContext env c (Obj kvs) d =
    (Inr (), d\<lparr>aliases := (aliases d)(aliasId ac \<mapsto>
               doc (applyUpdates (pick (Obj kvs) ALIAS_SETTINGS_FIELDS)
                     \<lparr>doc_id = aliasId ac, doc = a, modifiedPaths = []\<rparr>)),
            saves := Suc (saves d)\<rparr>)"
proof -
  let ?us = "pick (Obj kvs) ALIAS_SETTINGS_FIELDS"
  let ?m = "\<lparr>doc_id = aliasId ac, doc = a, modifiedPaths = []\<rparr>"
  let ?guard = "hasOwnProperty ?us ''mail_archive_folder''
                 \<and> getProp ?us ''mail_archive_folder'' \<noteq> Null
                 \<and> getProp ?us ''mail_archive_folder'' \<noteq> Undefined
                 \<and> typeof (getProp ?us ''mail_archive_folder'') \<noteq> ''string''"
  have f: "''mail_archive_folder'' \<in> set ALIAS_SETTINGS_FIELDS"
    by (simp add: ALIAS_SETTINGS_FIELDS_def)
  have g: "\<not> ?guard"
  proof
    assume ?guard
    then obtain w where "map_of kvs ''mail_archive_folder'' = Some w" "w \<noteq> Null"
        "w \<noteq> Undefined" "\<not> isString w"
      using f by (auto simp: hasOwnProperty_def getProp_def map_of_pick typeof_string)
    with ok [OF f, of w] show False by simp
  qed
  have "\<forall>k\<in>set (modifiedPaths (applyUpdates ?us ?m)).
          schemaRule env k (getProp (a_props (doc (applyUpdates ?us ?m))) k)"
  proof
    fix k assume "k \<in> set (modifiedPaths (applyUpdates ?us ?m))"
    then obtain w where w: "k \<in> set ALIAS_SETTINGS_FIELDS" "map_of kvs k = Some w" "w \<noteq> Undefined"
      using picked_membership by blast
    then have "getProp (a_props (doc (applyUpdates ?us ?m))) k = w"
      by (simp add: getProp_def picked_props)
    with ok [OF w] show "schemaRule env k (getProp (a_props (doc (applyUpdates ?us ?m))) k)"
      by simp
  qed
  then have "save env (applyUpdates ?us ?m) d =
      (Inr (), d\<lparr>aliases := (aliases d)(aliasId ac \<mapsto> doc (applyUpdates ?us ?m)),
                 saves := Suc (saves d)\<rparr>)"
    using save_valid [of "applyUpdates ?us ?m" env d] by (simp add: applyUpdates_id)
  with ac a g show ?thesis
    by (simp add: updateAliasSettingsForContext_def findById_def Let_def)
qed

lemma update_archive_guard:
  assumes ac: "getAliasContext env c = Inr ac" and a: "aliases d (aliasId ac) = Some a"
      and v: "map_of kvs ''mail_archive_folder'' = Some v"
  shows "(fst (updateAliasSettingsForContext env c (Obj kvs) d)
            = Inl (BadRequest ''SETTINGS_ARCHIVE_FOLDER_INVALID''))
         = (v \<noteq> Null \<and> v \<noteq> Undefined \<and> \<not> isString v)"
proof -
  have f: "''mail_archive_folder'' \<in> set ALIAS_SETTINGS_FIELDS"
    by (simp add: ALIAS_SETTINGS_FIELDS_def)
  have "\<And>m. fst (save env m d) \<noteq> Inl (BadRequest ''SETTINGS_ARCHIVE_FOLDER_INVALID'')"
    by (simp add: save_def split: option.splits)
  with ac a v f show ?thesis
    by (simp add: updateAliasSettingsForContext_def findById_def Let_def hasOwnProperty_def
        getProp_def map_of_pick typeof_string)
qed

text \<open>
  Claim C5. For a payload that carries \<^verbatim>\<open>mail_archive_folder\<close> with a value \<open>v\<close> other than
  \<^verbatim>\<open>undefined\<close> (which the update treats as absent), sent by a resolved actor whose alias
  exists: the update fails with the error of that field, \<^verbatim>\<open>SETTINGS_ARCHIVE_FOLDER_INVALID\<close>
  (status 400), exactly when \<open>v\<close> is neither \<^verbatim>\<open>null\<close> nor a string; it then returns the database
  it was given, so no field was applied; and when \<open>v\<close> is \<^verbatim>\<open>null\<close> or a string and the schema
  accepts the fields sent, the update succeeds and stores \<open>v\<close>.
\<close>

theorem archive_folder_null_or_string:
  assumes "getAliasContext env c = Inr ac" and "aliases d (aliasId ac) = Some a"
      and "map_of kvs ''mail_archive_folder'' = Some v" and "v \<noteq> Undefined"
  shows "((fst (updateAliasSettingsForContext env c (Obj kvs) d)
             = Inl (BadRequest ''SETTINGS_ARCHIVE_FOLDER_INVALID''))
          = (\<not> (v = Null \<or> isString v)))
       \<and> (\<not> (v = Null \<or> isString v) \<longrightarrow>
            updateAliasSettingsForContext env c (Obj kvs) d
              = (Inl (BadRequest ''SETTINGS_ARCHIVE_FOLDER_INVALID''), d))
       \<and> ((v = Null \<or> isString v)
            \<and> list_all (\<lambda>k. case map_of kvs k of
                               None \<Rightarrow> True
                             | Some w \<Rightarrow> w = Undefined \<or> schemaRule env k w)
                 ALIAS_SETTINGS_FIELDS \<longrightarrow>
            (\<exists>d' a'. updateAliasSettingsForContext env c (Obj kvs) d = (Inr (), d')
                \<and> aliases d' (aliasId ac) = Some a'
                \<and> map_of (a_props a') ''mail_archive_folder'' = Some v))"
proof (intro conjI impI)
  show 1: "(fst (updateAliasSettingsForContext env c (Obj kvs) d)
             = Inl (BadRequest ''SETTINGS_ARCHIVE_FOLDER_INVALID''))
          = (\<not> (v = Null \<or> isString v))"
    using update_archive_guard [OF assms(1-3)] assms(4) by simp
  {
    assume "\<not> (v = Null \<or> isString v)"
    with 1 have "fst (updateAliasSettingsForContext env c (Obj kvs) d)
             = Inl (BadRequest ''SETTINGS_ARCHIVE_FOLDER_INVALID'')" by simp
    then show "updateAliasSettingsForContext env c (Obj kvs) d
              = (Inl (BadRequest ''SETTINGS_ARCHIVE_FOLDER_INVALID''), d)"
      using update_error_unchanged [of env c "Obj kvs" d]
      by (cases "updateAliasSettingsForContext env c (Obj kvs) d") auto
  }
  {
    assume h: "(v = Null \<or> isString v)
            \<and> list_all (\<lambda>k. case map_of kvs k of
                               None \<Rightarrow> True
                             | Some w \<Rightarrow> w = Undefined \<or> schemaRule env k w)
                 ALIAS_SETTINGS_FIELDS"
    have f: "''mail_archive_folder'' \<in> set ALIAS_SETTINGS_FIELDS"
      by (simp add: ALIAS_SETTINGS_FIELDS_def)
    have ok: "\<And>k w. k \<in> set ALIAS_SETTINGS_FIELDS \<Longrightarrow> map_of kvs k = Some w \<Longrightarrow> w \<noteq> Undefined
                 \<Longrightarrow> schemaRule env k w \<and> (k = ''mail_archive_folder'' \<longrightarrow> w = Null \<or> isString w)"
      using h assms(3) by (auto simp: list_all_iff split: option.splits)
    show "\<exists>d' a'. updateAliasSettingsForContext env c (Obj kvs) d = (Inr (), d')
                \<and> aliases d' (aliasId ac) = Some a'
                \<and> map_of (a_props a') ''mail_archive_folder'' = Some v"
      using update_valid [OF assms(1,2) ok] picked_props [OF f assms(3,4)]
      by simp
  }
qed

theorem archive_folder_null_or_string_witness:
  "updateAliasSettingsForContext exampleEnv (exampleCtx Undefined)
      (Obj [(''mail_archive_folder'', Num 12345)]) (exampleDb registeredDefaults None)
     = (Inl (BadRequest ''SETTINGS_ARCHIVE_FOLDER_INVALID''), exampleDb registeredDefaults None)
   \<and> (\<exists>d' a'. updateAliasSettingsForContext exampleEnv (exampleCtx Undefined)
          (Obj [(''mail_archive_folder'', Str ''Archive'')]) (exampleDb registeredDefaults None)
          = (Inr (), d')
        \<and> aliases d' ''65f0c0ffee0123456789abcd'' = Some a'
        \<and> map_of (a_props a') ''mail_archive_folder'' = Some (Str ''Archive''))
   \<and> (\<exists>d' a'. updateAliasSettingsForContext exampleEnv (exampleCtx Undefined)
          (Obj [(''mail_archive_folder'', Null)]) (exampleDb [] None)
          = (Inr (), d')
        \<and> aliases d' ''65f0c0ffee0123456789abcd'' = Some a'
        \<and> map_of (a_props a') ''mail_archive_folder'' = Some Null)"
  using archive_folder_null_or_string [OF alias_context_example, of
          "exampleDb registeredDefaults None" "exampleAlias registeredDefaults"
          "[(''mail_archive_folder'', Num 12345)]" "Num 12345" Undefined]
        archive_folder_null_or_string [OF alias_context_example, of
          "exampleDb registeredDefaults None" "exampleAlias registeredDefaults"
          "[(''mail_archive_folder'', Str ''Archive'')]" "Str ''Archive''" Undefined]
        archive_folder_null_or_string [OF alias_context_example, of
          "exampleDb [] None" "exampleAlias []"
          "[(''mail_archive_folder'', Null)]" "Null" Undefined]
  by (simp add: exampleDb_def ALIAS_SETTINGS_FIELDS_def example_rule)

lemma update_invalid_client:
  assumes "k \<in> set ALIAS_SETTINGS_FIELDS" and "map_of kvs k = Some v" and "v \<noteq> Undefined"
      and "\<not> schemaRule env k v \<or>
           (k = ''mail_archive_folder'' \<and> v \<noteq> Null \<and> typeof v \<noteq> ''string'')"
  shows "\<exists>e. updateAliasSettingsForContext env c (Obj kvs) d = (Inl e, d) \<and> clientError e"
proof -
  obtain e where e: "updateAliasSettingsForContext env c (Obj kvs) d = (Inl e, d)"
    using update_invalid_field [OF assms] by blast
  then have "clientError e" by (rule update_error_client)
  with e show ?thesis by blast
qed

text \<open>
  Claim C6. With the page-size rule of the schema as the spec gives it (membership in a
  fixed set of sizes), every payload whose \<^verbatim>\<open>mail_messages_per_page\<close> is 30 is rejected with a
  client error and the database is left as it was, while a payload whose
  \<^verbatim>\<open>mail_messages_per_page\<close> is 50 or 100, and whose other fields pass, is accepted and the
  value is stored.
\<close>

theorem page_size_closed_set:
  assumes "schemaRule env ''mail_messages_per_page'' = mail_messages_per_page_rule"
  shows "(map_of kvs ''mail_messages_per_page'' = Some (Num 30) \<longrightarrow>
            (\<exists>e. updateAliasSettingsForContext env c (Obj kvs) d = (Inl e, d) \<and> clientError e))
       \<and> (getAliasContext env c = Inr ac \<and> aliases d (aliasId ac) = Some a
            \<and> map_of kvs ''mail_messages_per_page'' = Some (Num n) \<and> (n = 50 \<or> n = 100)
            \<and> list_all (\<lambda>k. k = ''mail_messages_per_page'' \<or>
                    (case map_of kvs k of
                       None \<Rightarrow> True
                     | Some w \<Rightarrow> w = Undefined \<or>
                         (schemaRule env k w
                          \<and> (k = ''mail_archive_folder'' \<longrightarrow> w = Null \<or> isString w))))
                 ALIAS_SETTINGS_FIELDS \<longrightarrow>
            (\<exists>d' a'. updateAliasSettingsForContext env c (Obj kvs) d = (Inr (), d')
                \<and> aliases d' (aliasId ac) = Some a'
                \<and> map_of (a_props a') ''mail_messages_per_page'' = Some (Num n)))"
proof (intro conjI impI)
  have f: "''mail_messages_per_page'' \<in> set ALIAS_SETTINGS_FIELDS"
    by (simp add: ALIAS_SETTINGS_FIELDS_def)
  {
    assume 30: "map_of kvs ''mail_messages_per_page'' = Some (Num 30)"
    have "\<not> mail_messages_per_page_rule (Num 30)"
      by (simp add: accepted_page_sizes_def)
    then have "\<not> schemaRule env ''mail_messages_per_page'' (Num 30)"
      using assms by simp
    then show "\<exists>e. updateAliasSettingsForContext env c (Obj kvs) d = (Inl e, d) \<and> clientError e"
      using update_invalid_client [OF f 30] by simp
  }
  {
    assume h: "getAliasContext env c = Inr ac \<and> aliases d (aliasId ac) = Some a
            \<and> map_of kvs ''mail_messages_per_page'' = Some (Num n) \<and> (n = 50 \<or> n = 100)
            \<and> list_all (\<lambda>k. k = ''mail_messages_per_page'' \<or>
                    (case map_of kvs k of
                       None \<Rightarrow> True
                     | Some w \<Rightarrow> w = Undefined \<or>
                         (schemaRule env k w
                          \<and> (k = ''mail_archive_folder'' \<longrightarrow> w = Null \<or> isString w))))
                 ALIAS_SETTINGS_FIELDS"
    from h have ac: "getAliasContext env c = Inr ac" and a: "aliases d (aliasId ac) = Some a"
      and v: "map_of kvs ''mail_messages_per_page'' = Some (Num n)"
      and n50: "n = 50 \<or> n = 100"
      and rest: "\<forall>k\<in>set ALIAS_SETTINGS_FIELDS. k = ''mail_messages_per_page'' \<or>
                    (case map_of kvs k of
                       None \<Rightarrow> True
                     | Some w \<Rightarrow> w = Undefined \<or>
                         (schemaRule env k w
                          \<and> (k = ''mail_archive_folder'' \<longrightarrow> w = Null \<or> isString w)))"
      by (simp_all add: list_all_iff)
    have "mail_messages_per_page_rule (Num n)"
      using n50 by (auto simp: accepted_page_sizes_def)
    then have n: "schemaRule env ''mail_messages_per_page'' (Num n)"
      using assms by simp
    have ok: "schemaRule env k w \<and> (k = ''mail_archive_folder'' \<longrightarrow> w = Null \<or> isString w)"
      if "k \<in> set ALIAS_SETTINGS_FIELDS" "map_of kvs k = Some w" "w \<noteq> Undefined" for k w
    proof (cases "k = ''mail_messages_per_page''")
      case True
      with that v n show ?thesis by simp
    next
      case False
      with rest that(1) have "case map_of kvs k of
                       None \<Rightarrow> True
                     | Some w \<Rightarrow> w = Undefined \<or>
                         (schemaRule env k w
                          \<and> (k = ''mail_archive_folder'' \<longrightarrow> w = Null \<or> isString w))"
        by blast
      with that(2,3) show ?thesis by simp
    qed
    show "\<exists>d' a'. updateAliasSettingsForContext env c (Obj kvs) d = (Inr (), d')
                \<and> aliases d' (aliasId ac) = Some a'
                \<and> map_of (a_props a') ''mail_messages_per_page'' = Some (Num n)"
      using update_valid [OF ac a ok] picked_props [OF f v]
      by simp
  }
qed

theorem page_size_closed_set_witness:
  "(\<exists>e. updateAliasSettingsForContext exampleEnv (exampleCtx Undefined)
          (Obj [(''mail_messages_per_page'', Num 30)]) (exampleDb registeredDefaults None)
        = (Inl e, exampleDb registeredDefaults None) \<and> clientError e)
   \<and> (\<exists>d' a'. updateAliasSettingsForContext exampleEnv (exampleCtx Undefined)
          (Obj [(''mail_messages_per_page'', Num 100)]) (exampleDb registeredDefaults None)
          = (Inr (), d')
        \<and> aliases d' ''65f0c0ffee0123456789abcd'' = Some a'
        \<and> map_of (a_props a') ''mail_messages_per_page'' = Some (Num 100))"
  using page_size_closed_set [of exampleEnv "[(''mail_messages_per_page'', Num 30)]"
          "exampleCtx Undefined" "exampleDb registeredDefaults None"]
        page_size_closed_set [of exampleEnv "[(''mail_messages_per_page'', Num 100)]"
          "exampleCtx Undefined" "exampleDb registeredDefaults None"
          "\<lparr>aliasId = ''65f0c0ffee0123456789abcd'', domainName = ''example.com'',
            aliasEmail = ''hello@example.com''\<rparr>" "exampleAlias registeredDefaults" 100]
  by (simp add: exampleDb_def ALIAS_SETTINGS_FIELDS_def example_rule alias_context_example
      fun_eq_iff)

section \<open>Valid updates\<close>

lemma valid_fields:
  assumes "list_all (\<lambda>k. case map_of kvs k of
                    None \<Rightarrow> True
                  | Some w \<Rightarrow> w = Undefined \<or>
                      (schemaRule env k w
                       \<and> (k = ''mail_archive_folder'' \<longrightarrow> w = Null \<or> isString w)))
            ALIAS_SETTINGS_FIELDS"
      and "k \<in> set ALIAS_SETTINGS_FIELDS" and "map_of kvs k = Some w" and "w \<noteq> Undefined"
  shows "schemaRule env k w \<and> (k = ''mail_archive_folder'' \<longrightarrow> w = Null \<or> isString w)"
proof -
  from assms(1,2) have "case map_of kvs k of
                    None \<Rightarrow> True
                  | Some w \<Rightarrow> w = Undefined \<or>
                      (schemaRule env k w
                       \<and> (k = ''mail_archive_folder'' \<longrightarrow> w = Null \<or> isString w))"
    by (simp add: list_all_iff)
  with assms(3,4) show ?thesis by simp
qed

lemma invalid_field:
  assumes "\<not> list_all (\<lambda>k. case map_of kvs k of
                    None \<Rightarrow> True
                  | Some w \<Rightarrow> w = Undefined \<or>
                      (schemaRule env k w
                       \<and> (k = ''mail_archive_folder'' \<longrightarrow> w = Null \<or> isString w)))
            ALIAS_SETTINGS_FIELDS"
  shows "\<exists>k w. k \<in> set ALIAS_SETTINGS_FIELDS \<and> map_of kvs k = Some w \<and> w \<noteq> Undefined
           \<and> (\<not> schemaRule env k w \<or>
                (k = ''mail_archive_folder'' \<and> w \<noteq> Null \<and> typeof w \<noteq> ''string''))"
proof -
  from assms obtain k where k: "k \<in> set ALIAS_SETTINGS_FIELDS"
    and n: "\<not> (case map_of kvs k of
                    None \<Rightarrow> True
                  | Some w \<Rightarrow> w = Undefined \<or>
                      (schemaRule env k w
                       \<and> (k = ''mail_archive_folder'' \<longrightarrow> w = Null \<or> isString w)))"
    by (auto simp: list_all_iff)
  from n obtain w where "map_of kvs k = Some w" "w \<noteq> Undefined"
    "\<not> (schemaRule env k w \<and> (k = ''mail_archive_folder'' \<longrightarrow> w = Null \<or> isString w))"
    by (cases "map_of kvs k") auto
  with k show ?thesis by (auto simp: typeof_string)
qed

lemma applied_props:
  "map_of (a_props (doc (applyUpdates (pick (Obj kvs) ALIAS_SETTINGS_FIELDS) m))) k =
     (if k \<in> set ALIAS_SETTINGS_FIELDS \<and> map_of kvs k \<noteq> None
         \<and> map_of kvs k \<noteq> Some Undefined
      then map_of kvs k else map_of (a_props (doc m)) k)"
  using picked_props [of k kvs _ m] unpicked_props [of k kvs m] by auto

text \<open>
  Claim C4. For a resolved actor whose alias exists, the update of a payload succeeds
  exactly when the payload is valid: each whitelisted field it carries with a value other
  than \<^verbatim>\<open>undefined\<close> passes the schema's rule, and \<^verbatim>\<open>mail_archive_folder\<close> the type guard.
  The update of a valid payload succeeds, and afterwards every property \<open>k\<close> of the stored
  alias is the payload's value when \<open>k\<close> is a whitelisted field present in the payload
  with a value other than \<^verbatim>\<open>undefined\<close> (a falsy value such as \<^verbatim>\<open>false\<close>, \<^verbatim>\<open>0\<close> or an
  empty collection included), and is what it was before in every other case.
\<close>

theorem update_applies_present_fields:
  assumes "getAliasContext env c = Inr ac" and "aliases d (aliasId ac) = Some a"
  shows "((\<exists>d'. updateAliasSettingsForContext env c (Obj kvs) d = (Inr (), d')) = list_all (\<lambda>k. case map_of kvs k of
                    None \<Rightarrow> True
                  | Some w \<Rightarrow> w = Undefined \<or>
                      (schemaRule env k w
                       \<and> (k = ''mail_archive_folder'' \<longrightarrow> w = Null \<or> isString w)))
            ALIAS_SETTINGS_FIELDS)
       \<and> (list_all (\<lambda>k. case map_of kvs k of
                    None \<Rightarrow> True
                  | Some w \<Rightarrow> w = Undefined \<or>
                      (schemaRule env k w
                       \<and> (k = ''mail_archive_folder'' \<longrightarrow> w = Null \<or> isString w)))
            ALIAS_SETTINGS_FIELDS \<longrightarrow>
            (\<exists>d' a'. updateAliasSettingsForContext env c (Obj kvs) d = (Inr (), d')
               \<and> aliases d' (aliasId ac) = Some a'
               \<and> (\<forall>k. map_of (a_props a') k =
                     (if k \<in> set ALIAS_SETTINGS_FIELDS \<and> map_of kvs k \<noteq> None
                         \<and> map_of kvs k \<noteq> Some Undefined
                      then map_of kvs k else map_of (a_props a) k))))"
proof -
  let ?m = "\<lparr>doc_id = aliasId ac, doc = a, modifiedPaths = []\<rparr>"
  let ?a' = "doc (applyUpdates (pick (Obj kvs) ALIAS_SETTINGS_FIELDS) ?m)"
  let ?d' = "d\<lparr>aliases := (aliases d)(aliasId ac \<mapsto> ?a'), saves := Suc (saves d)\<rparr>"
  have ok: "updateAliasSettingsForContext env c (Obj kvs) d = (Inr (), ?d')" if "list_all (\<lambda>k. case map_of kvs k of
                    None \<Rightarrow> True
                  | Some w \<Rightarrow> w = Undefined \<or>
                      (schemaRule env k w
                       \<and> (k = ''mail_archive_folder'' \<longrightarrow> w = Null \<or> isString w)))
            ALIAS_SETTINGS_FIELDS"
    using update_valid [OF assms] valid_fields [OF that] by blast
  have bad: "\<not> (\<exists>d'. updateAliasSettingsForContext env c (Obj kvs) d = (Inr (), d'))"
    if "\<not> list_all (\<lambda>k. case map_of kvs k of
                    None \<Rightarrow> True
                  | Some w \<Rightarrow> w = Undefined \<or>
                      (schemaRule env k w
                       \<and> (k = ''mail_archive_folder'' \<longrightarrow> w = Null \<or> isString w)))
            ALIAS_SETTINGS_FIELDS"
  proof -
    from invalid_field [OF that] obtain k w where
      "k \<in> set ALIAS_SETTINGS_FIELDS" "map_of kvs k = Some w" "w \<noteq> Undefined"
      "\<not> schemaRule env k w \<or>
         (k = ''mail_archive_folder'' \<and> w \<noteq> Null \<and> typeof w \<noteq> ''string'')"
      by blast
    from update_invalid_field [OF this, of c d] show ?thesis by auto
  qed
  have "(\<exists>d'. updateAliasSettingsForContext env c (Obj kvs) d = (Inr (), d')) = list_all (\<lambda>k. case map_of kvs k of
                    None \<Rightarrow> True
                  | Some w \<Rightarrow> w = Undefined \<or>
                      (schemaRule env k w
                       \<and> (k = ''mail_archive_folder'' \<longrightarrow> w = Null \<or> isString w)))
            ALIAS_SETTINGS_FIELDS"
    using ok bad by blast
  moreover have "\<exists>d' a'. updateAliasSettingsForContext env c (Obj kvs) d = (Inr (), d')
               \<and> aliases d' (aliasId ac) = Some a'
               \<and> (\<forall>k. map_of (a_props a') k =
                     (if k \<in> set ALIAS_SETTINGS_FIELDS \<and> map_of kvs k \<noteq> None
                         \<and> map_of kvs k \<noteq> Some Undefined
                      then map_of kvs k else map_of (a_props a) k))" if "list_all (\<lambda>k. case map_of kvs k of
                    None \<Rightarrow> True
                  | Some w \<Rightarrow> w = Undefined \<or>
                      (schemaRule env k w
                       \<and> (k = ''mail_archive_folder'' \<longrightarrow> w = Null \<or> isString w)))
            ALIAS_SETTINGS_FIELDS"
  proof -
    have "aliases ?d' (aliasId ac) = Some ?a'" by simp
    moreover have "\<forall>k. map_of (a_props ?a') k =
                     (if k \<in> set ALIAS_SETTINGS_FIELDS \<and> map_of kvs k \<noteq> None
                         \<and> map_of kvs k \<noteq> Some Undefined
                      then map_of kvs k else map_of (a_props a) k)"
      by (auto simp: applied_props)
    ultimately show ?thesis using ok [OF that] by blast
  qed
  ultimately show ?thesis by blast
qed

theorem update_applies_present_fields_witness:
  "\<exists>d' a'. updateAliasSettingsForContext exampleEnv (exampleCtx Undefined)
       (Obj [(''search_body_indexing'', Bool False), (''prefetch_folders'', Arr []),
             (''mail_messages_per_page'', Num 100), (''appearance_theme'', Undefined)])
       (exampleDb [(''appearance_theme'', Str ''dark''), (''search_body_indexing'', Bool True)]
          None)
     = (Inr (), d')
     \<and> aliases d' ''65f0c0ffee0123456789abcd'' = Some a'
     \<and> map_of (a_props a') ''search_body_indexing'' = Some (Bool False)
     \<and> map_of (a_props a') ''prefetch_folders'' = Some (Arr [])
     \<and> map_of (a_props a') ''mail_messages_per_page'' = Some (Num 100)
     \<and> map_of (a_props a') ''appearance_theme'' = Some (Str ''dark'')"
proof -
  let ?kvs = "[(''search_body_indexing'', Bool False), (''prefetch_folders'', Arr []),
               (''mail_messages_per_page'', Num 100), (''appearance_theme'', Undefined)]"
  let ?ps = "[(''appearance_theme'', Str ''dark''), (''search_body_indexing'', Bool True)]"
  let ?ac = "\<lparr>aliasId = ''65f0c0ffee0123456789abcd'', domainName = ''example.com'',
              aliasEmail = ''hello@example.com''\<rparr>"
  have a: "aliases (exampleDb ?ps None) (aliasId ?ac) = Some (exampleAlias ?ps)"
    by (simp add: exampleDb_def)
  have v: "list_all (\<lambda>k. case map_of ?kvs k of
                    None \<Rightarrow> True
                  | Some w \<Rightarrow> w = Undefined \<or>
                      (schemaRule exampleEnv k w
                       \<and> (k = ''mail_archive_folder'' \<longrightarrow> w = Null \<or> isString w)))
            ALIAS_SETTINGS_FIELDS"
    by (simp add: ALIAS_SETTINGS_FIELDS_def example_rule accepted_page_sizes_def)
  from update_applies_present_fields [OF alias_context_example [of Undefined] a, of ?kvs] v
  obtain d' a' where
    u: "updateAliasSettingsForContext exampleEnv (exampleCtx Undefined) (Obj ?kvs)
          (exampleDb ?ps None) = (Inr (), d')" and
    s: "aliases d' (aliasId ?ac) = Some a'" and
    p: "\<And>k. map_of (a_props a') k =
              (if k \<in> set ALIAS_SETTINGS_FIELDS \<and> map_of ?kvs k \<noteq> None
                  \<and> map_of ?kvs k \<noteq> Some Undefined
               then map_of ?kvs k else map_of (a_props (exampleAlias ?ps)) k)"
    by blast
  have "map_of (a_props a') ''search_body_indexing'' = Some (Bool False)"
    by (simp add: p ALIAS_SETTINGS_FIELDS_def)
  moreover have "map_of (a_props a') ''prefetch_folders'' = Some (Arr [])"
    by (simp add: p ALIAS_SETTINGS_FIELDS_def)
  moreover have "map_of (a_props a') ''mail_messages_per_page'' = Some (Num 100)"
    by (simp add: p ALIAS_SETTINGS_FIELDS_def)
  moreover have "map_of (a_props a') ''appearance_theme'' = Some (Str ''dark'')"
    by (simp add: p exampleAlias_def)
  ultimately show ?thesis using u s by auto
qed

text \<open>
  Claim C3. For a resolved actor whose alias exists, two successive updates with valid
  payloads, the first carrying the \<^verbatim>\<open>label_settings\<close> map \<open>M1\<close> and the second \<open>M2\<close>, both
  succeed; after the first the stored \<^verbatim>\<open>label_settings\<close> is \<open>M1\<close>, and after the second it
  is \<open>M2\<close> itself: it has exactly the keys of \<open>M2\<close>, whatever \<open>M1\<close> was, and is empty when
  \<open>M2\<close> is.
\<close>

theorem label_settings_replaced:
  assumes "getAliasContext env c = Inr ac" and "aliases d (aliasId ac) = Some a"
      and "list_all (\<lambda>k. case map_of kvs1 k of
                    None \<Rightarrow> True
                  | Some w \<Rightarrow> w = Undefined \<or>
                      (schemaRule env k w
                       \<and> (k = ''mail_archive_folder'' \<longrightarrow> w = Null \<or> isString w)))
            ALIAS_SETTINGS_FIELDS"
      and "map_of kvs1 ''label_settings'' = Some (Obj M1)"
      and "list_all (\<lambda>k. case map_of kvs2 k of
                    None \<Rightarrow> True
                  | Some w \<Rightarrow> w = Undefined \<or>
                      (schemaRule env k w
                       \<and> (k = ''mail_archive_folder'' \<longrightarrow> w = Null \<or> isString w)))
            ALIAS_SETTINGS_FIELDS"
      and "map_of kvs2 ''label_settings'' = Some (Obj M2)"
  shows "\<exists>d1 a1 d2 a2.
           updateAliasSettingsForContext env c (Obj kvs1) d = (Inr (), d1)
         \<and> aliases d1 (aliasId ac) = Some a1
         \<and> map_of (a_props a1) ''label_settings'' = Some (Obj M1)
         \<and> updateAliasSettingsForContext env c (Obj kvs2) d1 = (Inr (), d2)
         \<and> aliases d2 (aliasId ac) = Some a2
         \<and> map_of (a_props a2) ''label_settings'' = Some (Obj M2)"
proof -
  have f: "''label_settings'' \<in> set ALIAS_SETTINGS_FIELDS"
    by (simp add: ALIAS_SETTINGS_FIELDS_def)
  let ?m1 = "\<lparr>doc_id = aliasId ac, doc = a, modifiedPaths = []\<rparr>"
  let ?a1 = "doc (applyUpdates (pick (Obj kvs1) ALIAS_SETTINGS_FIELDS) ?m1)"
  let ?d1 = "d\<lparr>aliases := (aliases d)(aliasId ac \<mapsto> ?a1), saves := Suc (saves d)\<rparr>"
  have u1: "updateAliasSettingsForContext env c (Obj kvs1) d = (Inr (), ?d1)"
    using update_valid [OF assms(1,2)] valid_fields [OF assms(3)] by blast
  have s1: "aliases ?d1 (aliasId ac) = Some ?a1" by simp
  let ?m2 = "\<lparr>doc_id = aliasId ac, doc = ?a1, modifiedPaths = []\<rparr>"
  let ?a2 = "doc (applyUpdates (pick (Obj kvs2) ALIAS_SETTINGS_FIELDS) ?m2)"
  let ?d2 = "?d1\<lparr>aliases := (aliases ?d1)(aliasId ac \<mapsto> ?a2), saves := Suc (saves ?d1)\<rparr>"
  have u2: "updateAliasSettingsForContext env c (Obj kvs2) ?d1 = (Inr (), ?d2)"
    using update_valid [OF assms(1) s1] valid_fields [OF assms(5)] by blast
  have s2: "aliases ?d2 (aliasId ac) = Some ?a2" by simp
  have p1: "map_of (a_props ?a1) ''label_settings'' = Some (Obj M1)"
    using picked_props [OF f assms(4)] by simp
  have p2: "map_of (a_props ?a2) ''label_settings'' = Some (Obj M2)"
    using picked_props [OF f assms(6)] by simp
  from u1 s1 p1 u2 s2 p2 show ?thesis by blast
qed

theorem label_settings_replaced_witness:
  "\<exists>d1 a1 d2 a2.
      updateAliasSettingsForContext exampleEnv (exampleCtx Undefined)
        (Obj [(''label_settings'',
               Obj [(''work'', Obj [(''name'', Str ''Work''), (''color'', Str ''#33AADD'')])])])
        (exampleDb registeredDefaults None) = (Inr (), d1)
    \<and> aliases d1 ''65f0c0ffee0123456789abcd'' = Some a1
    \<and> map_of (a_props a1) ''label_settings''
        = Some (Obj [(''work'', Obj [(''name'', Str ''Work''), (''color'', Str ''#33AADD'')])])
    \<and> updateAliasSettingsForContext exampleEnv (exampleCtx Undefined)
        (Obj [(''label_settings'', Obj [])]) d1 = (Inr (), d2)
    \<and> aliases d2 ''65f0c0ffee0123456789abcd'' = Some a2
    \<and> map_of (a_props a2) ''label_settings'' = Some (Obj [])"
  using label_settings_replaced [OF alias_context_example, of
      "exampleDb registeredDefaults None" "exampleAlias registeredDefaults"
      "[(''label_settings'',
         Obj [(''work'', Obj [(''name'', Str ''Work''), (''color'', Str ''#33AADD'')])])]"
      "[(''work'', Obj [(''name'', Str ''Work''), (''color'', Str ''#33AADD'')])]"
      "[(''label_settings'', Obj [])]" "[]" Undefined]
  by (simp add: exampleDb_def ALIAS_SETTINGS_FIELDS_def example_rule)

section \<open>Bodies that are not objects\<close>

lemma example_ctx:
  "session_db (exampleCtx b)"
  "request_body (exampleCtx b) = b"
  "ctx_locale (exampleCtx b) = ''en''"
  "state_user (exampleCtx b) =
     Some \<lparr>alias_id = Some ''65f0c0ffee0123456789abcd'', domain_name = ''example.com'',
           username = ''hello@example.com'', u_props = []\<rparr>"
  by (simp_all add: exampleCtx_def)

lemma alias_context_user:
  "getAliasContext env c = Inr ac \<Longrightarrow>
   \<exists>u. state_user c = Some u \<and> alias_id u = Some (aliasId ac)"
  by (auto simp: getAliasContext_def split: option.splits if_splits)




section \<open>The account payload and the missing alias\<close>

lemma spread_lookup:
  "distinct (map fst extra) \<Longrightarrow>
   map_of (spread base extra) k =
     (case map_of extra k of None \<Rightarrow> map_of base k | Some v \<Rightarrow> Some v)"
  unfolding spread_def
proof (induction extra arbitrary: base)
  case Nil
  then show ?case by simp
next
  case (Cons p extra)
  obtain k0 v0 where p: "p = (k0, v0)" by (cases p)
  with Cons.prems have "map_of extra k0 = None"
    by (simp add: map_of_eq_None_iff)
  with Cons p show ?case
    by (auto simp: update_conv' split: option.splits)
qed

lemma serialize_distinct: "distinct (map fst (serializeAliasSettings a))"
  by (simp add: serializeAliasSettings_def Let_def distinct_update distinct_pick distinct_fields)

lemma serialize_lookup:
  "map_of (serializeAliasSettings a) k =
     (if k \<in> {''shortcuts'', ''label_settings'', ''aliases_defaults''}
         \<and> \<not> truthy (getProp (a_props a) k)
      then Some (Obj [])
      else if k \<in> set ALIAS_SETTINGS_FIELDS then map_of (a_props a) k else None)"
proof -
  have f: "''shortcuts'' \<in> set ALIAS_SETTINGS_FIELDS"
    "''label_settings'' \<in> set ALIAS_SETTINGS_FIELDS"
    "''aliases_defaults'' \<in> set ALIAS_SETTINGS_FIELDS"
    by (simp_all add: ALIAS_SETTINGS_FIELDS_def)
  show ?thesis
    using f
    by (auto simp: serializeAliasSettings_def Let_def update_conv' map_of_pick getProp_def)
qed

lemma payload_lookup:
  assumes "aliasBody env c i a (Some dm) = Inr p"
  shows "map_of p k =
    (case map_of (serializeAliasSettings a) k of
       Some v \<Rightarrow> Some v
     | None \<Rightarrow> map_of
        [(''id'', Str i),
         (''object'', Str ''alias''),
         (''name'', Str (a_name a)),
         (''email'', Str (a_name a @ ''@'' @ d_name dm)),
         (''domain_id'', Str (d_id dm)),
         (''domain_name'', Str (d_name dm)),
         (''storage_used'', Num (case a_storage_used a of None \<Rightarrow> 0 | Some n \<Rightarrow> n)),
         (''storage_quota'', Num (case d_max_quota_per_alias dm of
                                   None \<Rightarrow> maxQuotaPerAlias env
                                 | Some q \<Rightarrow> if q = 0 then maxQuotaPerAlias env else q)),
         (''has_imap'', a_has_imap a),
         (''has_pgp'', a_has_pgp a),
         (''public_key'', a_public_key a),
         (''locale'', Str (case a_locale a of
                             None \<Rightarrow> ctx_locale c
                           | Some l \<Rightarrow> if l = [] then ctx_locale c else l)),
         (''created_at'', a_created_at a),
         (''updated_at'', a_updated_at a)] k)"
proof -
  have "(case a_storage_used a of None \<Rightarrow> 0 | Some n \<Rightarrow> if n \<noteq> 0 then n else 0)
          = (case a_storage_used a of None \<Rightarrow> 0 | Some n \<Rightarrow> n)"
    by (simp split: option.splits)
  moreover have "(case d_max_quota_per_alias dm of None \<Rightarrow> maxQuotaPerAlias env
                  | Some q \<Rightarrow> if q \<noteq> 0 then q else maxQuotaPerAlias env)
          = (case d_max_quota_per_alias dm of None \<Rightarrow> maxQuotaPerAlias env
                  | Some q \<Rightarrow> if q = 0 then maxQuotaPerAlias env else q)"
    by (simp split: option.splits)
  moreover have "(case a_locale a of None \<Rightarrow> ctx_locale c
                   | Some l \<Rightarrow> if l \<noteq> [] then l else ctx_locale c)
          = (case a_locale a of None \<Rightarrow> ctx_locale c
                   | Some l \<Rightarrow> if l = [] then ctx_locale c else l)"
    by (simp split: option.splits)
  ultimately show ?thesis
    using assms
    unfolding aliasBody_def Let_def
    by (auto simp only: option.case sum.inject spread_lookup [OF serialize_distinct])
qed

lemma map_sum_AliasBody: "map_sum id AliasBody x = Inr (AliasBody p) \<Longrightarrow> x = Inr p"
  by (cases x) auto

lemma retrieve_alias:
  assumes "session_db c" "state_user c = Some u" "alias_id u = Some i"
      and "aliases d i = Some a" "domains d (a_domain a) = Some dm"
  shows "\<exists>p. retrieve env c d = Inr (AliasBody p) \<and> aliasBody env c i a (Some dm) = Inr p"
  using assms by (simp add: retrieve_def findLean_def aliasBody_def Let_def)

lemma update_alias:
  assumes "update env c d0 = (Inr (AliasBody p), d)"
      and "state_user c = Some u" "alias_id u = Some i"
      and "aliases d i = Some a" "domains d (a_domain a) = Some dm"
  shows "aliasBody env c i a (Some dm) = Inr p"
proof -
  have s: "session_db c"
  proof (rule ccontr)
    assume "\<not> session_db c"
    with assms(1) show False
      by (auto simp: update_def Let_def split: sum.splits option.splits)
  qed
  obtain r d' where u: "updateAliasSettingsForContext env c (request_body c) d0 = (r, d')"
    by (cases "updateAliasSettingsForContext env c (request_body c) d0")
  with s assms(1) have "d' = d"
    by (auto simp: update_def Let_def split: sum.splits option.splits)
  with s u assms show ?thesis
    by (auto simp: update_def Let_def findLean_def split: sum.splits dest: map_sum_AliasBody)
qed

lemma payload_quota:
  assumes "aliasBody env c i a (Some dm) = Inr p"
  shows "getProp p ''storage_quota'' =
           Num (case d_max_quota_per_alias dm of
                  None \<Rightarrow> maxQuotaPerAlias env
                | Some q \<Rightarrow> if q = 0 then maxQuotaPerAlias env else q)"
  using payload_lookup [OF assms, of "''storage_quota''"]
  by (simp add: getProp_def serialize_lookup ALIAS_SETTINGS_FIELDS_def)

text \<open>
  Claim C9, as amended. In the payload that \<^verbatim>\<open>retrieve\<close> and \<^verbatim>\<open>update\<close> assemble for an
  alias, \<^verbatim>\<open>storage_quota\<close> is the domain's \<^verbatim>\<open>max_quota_per_alias\<close> when that attribute is
  present and not zero, and the global default \<^verbatim>\<open>config.maxQuotaPerAlias\<close> when it is absent
  or zero.
\<close>

theorem storage_quota_fallback:
  assumes "state_user c = Some u" and "alias_id u = Some i"
      and "aliases d i = Some a" and "domains d (a_domain a) = Some dm"
  shows "(session_db c \<longrightarrow>
            (\<exists>p. retrieve env c d = Inr (AliasBody p)
               \<and> getProp p ''storage_quota'' =
                   Num (case d_max_quota_per_alias dm of
                          None \<Rightarrow> maxQuotaPerAlias env
                        | Some q \<Rightarrow> if q = 0 then maxQuotaPerAlias env else q)))
       \<and> (update env c d0 = (Inr (AliasBody p'), d) \<longrightarrow>
            getProp p' ''storage_quota'' =
              Num (case d_max_quota_per_alias dm of
                     None \<Rightarrow> maxQuotaPerAlias env
                   | Some q \<Rightarrow> if q = 0 then maxQuotaPerAlias env else q))"
proof (intro conjI impI)
  {
    assume "session_db c"
    from retrieve_alias [OF this assms, of env] obtain p where
      "retrieve env c d = Inr (AliasBody p)" "aliasBody env c i a (Some dm) = Inr p"
      by blast
    then show "\<exists>p. retrieve env c d = Inr (AliasBody p)
               \<and> getProp p ''storage_quota'' =
                   Num (case d_max_quota_per_alias dm of
                          None \<Rightarrow> maxQuotaPerAlias env
                        | Some q \<Rightarrow> if q = 0 then maxQuotaPerAlias env else q)"
      using payload_quota by blast
  }
  {
    assume "update env c d0 = (Inr (AliasBody p'), d)"
    from update_alias [OF this assms] show "getProp p' ''storage_quota'' =
              Num (case d_max_quota_per_alias dm of
                     None \<Rightarrow> maxQuotaPerAlias env
                   | Some q \<Rightarrow> if q = 0 then maxQuotaPerAlias env else q)"
      by (rule payload_quota)
  }
qed

lemma example_retrieve_quota_zero:
  "retrieve exampleEnv (exampleCtx Undefined) (exampleDb [] (Some 0))
    = Inr (AliasBody
       [(''id'', Str ''65f0c0ffee0123456789abcd''),
        (''object'', Str ''alias''),
        (''name'', Str ''hello''),
        (''email'', Str ''hello@example.com''),
        (''domain_id'', Str ''dom1''),
        (''domain_name'', Str ''example.com''),
        (''storage_used'', Num 0),
        (''storage_quota'', Num 10737418240),
        (''has_imap'', Bool True),
        (''has_pgp'', Bool False),
        (''public_key'', Undefined),
        (''locale'', Str ''en''),
        (''created_at'', Num 1700000000),
        (''updated_at'', Num 1700000000),
        (''shortcuts'', Obj []),
        (''label_settings'', Obj []),
        (''aliases_defaults'', Obj [])])"
  by (simp add: retrieve_def findLean_def exampleCtx_def exampleDb_def exampleAlias_def
      exampleDomain_def exampleEnv_def aliasBody_def Let_def serializeAliasSettings_def
      ALIAS_SETTINGS_FIELDS_def pick.simps getProp_def spread_def)

text \<open>
  Claim C9 as stated fails where the domain's \<^verbatim>\<open>max_quota_per_alias\<close> is present and zero:
  the fallback is written with \<^verbatim>\<open>||\<close>, which takes a zero for a missing value, and the
  payload carries the global default.
\<close>

theorem storage_quota_zero_counterexample:
  "d_max_quota_per_alias (exampleDomain (Some 0)) = Some 0
   \<and> domains (exampleDb [] (Some 0)) (a_domain (exampleAlias [])) = Some (exampleDomain (Some 0))
   \<and> maxQuotaPerAlias exampleEnv = 10737418240
   \<and> retrieve exampleEnv (exampleCtx Undefined) (exampleDb [] (Some 0))
    = Inr (AliasBody
       [(''id'', Str ''65f0c0ffee0123456789abcd''),
        (''object'', Str ''alias''),
        (''name'', Str ''hello''),
        (''email'', Str ''hello@example.com''),
        (''domain_id'', Str ''dom1''),
        (''domain_name'', Str ''example.com''),
        (''storage_used'', Num 0),
        (''storage_quota'', Num 10737418240),
        (''has_imap'', Bool True),
        (''has_pgp'', Bool False),
        (''public_key'', Undefined),
        (''locale'', Str ''en''),
        (''created_at'', Num 1700000000),
        (''updated_at'', Num 1700000000),
        (''shortcuts'', Obj []),
        (''label_settings'', Obj []),
        (''aliases_defaults'', Obj [])])"
  by (simp add: example_retrieve_quota_zero)
     (simp add: exampleDb_def exampleAlias_def exampleDomain_def exampleEnv_def)

theorem storage_quota_fallback_witness:
  "\<exists>p. retrieve exampleEnv (exampleCtx Undefined) (exampleDb [] (Some 5368709120))
          = Inr (AliasBody p)
       \<and> getProp p ''storage_quota'' = Num 5368709120"
  using storage_quota_fallback [of "exampleCtx Undefined"
      "\<lparr>alias_id = Some ''65f0c0ffee0123456789abcd'', domain_name = ''example.com'',
        username = ''hello@example.com'', u_props = []\<rparr>"
      "''65f0c0ffee0123456789abcd''"
      "exampleDb [] (Some 5368709120)" "exampleAlias []" "exampleDomain (Some 5368709120)"
      exampleEnv]
  by (simp add: exampleCtx_def exampleDb_def exampleAlias_def exampleDomain_def)

text \<open>
  Claim C8, as amended. When the actor is resolved and the collection holds no alias of
  that identifier, \<^verbatim>\<open>retrieve\<close> fails with \<^verbatim>\<open>NotFound\<close>, while \<^verbatim>\<open>update\<close> fails inside
  \<^verbatim>\<open>updateAliasSettingsForContext\<close>, with \<^verbatim>\<open>Unauthorized\<close> (or with \<^verbatim>\<open>BadRequest\<close> when the
  body is a truthy value that is not an object, which is tested first), and the database is
  unchanged.
\<close>

theorem missing_alias_errors:
  assumes "session_db c" and "getAliasContext env c = Inr ac"
      and "aliases d (aliasId ac) = None"
  shows "retrieve env c d = Inl (NotFound ''ALIAS_DOES_NOT_EXIST'')
       \<and> update env c d =
           (Inl (if truthy (request_body c) \<and> typeof (request_body c) \<noteq> ''object''
                 then BadRequest ''INVALID_REQUEST_BODY''
                 else Unauthorized ''SETTINGS_INVALID_ALIAS_ID''), d)"
proof -
  from assms(2) alias_context_user obtain u where
    "state_user c = Some u" "alias_id u = Some (aliasId ac)" by blast
  with assms show ?thesis
    by (simp add: retrieve_def update_def findLean_def updateAliasSettingsForContext_def
        findById_def Let_def)
qed

theorem missing_alias_errors_witness:
  "retrieve exampleEnv (exampleCtx (Obj [])) emptyDb = Inl (NotFound ''ALIAS_DOES_NOT_EXIST'')
   \<and> update exampleEnv (exampleCtx (Obj [])) emptyDb
       = (Inl (Unauthorized ''SETTINGS_INVALID_ALIAS_ID''), emptyDb)"
  using missing_alias_errors [OF _ alias_context_example, of "Obj []" emptyDb]
  by (simp add: example_ctx emptyDb_def)

text \<open>
  Claim C8 as stated fails for \<^verbatim>\<open>update\<close>: the actor is resolved, the fetch finds no alias,
  and the error is \<^verbatim>\<open>Unauthorized\<close> with the key \<^verbatim>\<open>SETTINGS_INVALID_ALIAS_ID\<close>, not
  \<^verbatim>\<open>NotFound\<close>.
\<close>

theorem missing_alias_update_counterexample:
  "getAliasContext exampleEnv (exampleCtx (Obj []))
     = Inr \<lparr>aliasId = ''65f0c0ffee0123456789abcd'', domainName = ''example.com'',
            aliasEmail = ''hello@example.com''\<rparr>
   \<and> findById emptyDb ''65f0c0ffee0123456789abcd'' = None
   \<and> update exampleEnv (exampleCtx (Obj [])) emptyDb
       = (Inl (Unauthorized ''SETTINGS_INVALID_ALIAS_ID''), emptyDb)
   \<and> fst (update exampleEnv (exampleCtx (Obj [])) emptyDb)
       \<noteq> Inl (NotFound ''ALIAS_DOES_NOT_EXIST'')"
  by (simp add: alias_context_example update_def updateAliasSettingsForContext_def
      findById_def emptyDb_def example_ctx Let_def)





end
